theory Spec2Isabelle
  imports Main "HOL-Library.Sublist"
begin

section \<open>The account store and the listing endpoint (api/getAccounts)\<close>

text \<open>
  The source declares
  \<^verbatim>\<open>type EnergyAccount = { id: string; type: "ELECTRICITY" | "GAS"; balance: number; address: string }\<close>.
  The two-valued string union is a datatype. A balance is a JavaScript number; every balance
  of the store is an integer literal and no function modelled here computes with balances,
  so the field is an \<open>int\<close>. The fields \<open>id\<close> and \<open>type\<close> are \<open>acct_id\<close> and
  \<open>acct_type\<close> (\<open>id\<close> is the identity function of HOL).
\<close>

datatype energy_type = ELECTRICITY | GAS

record EnergyAccount =
  acct_id :: string
  acct_type :: energy_type
  balance :: int
  address :: string

definition accounts :: "EnergyAccount list" where
  "accounts =
    [\<lparr>acct_id = ''A-0001'', acct_type = ELECTRICITY, balance = 30,
       address = ''1 Greville Ct, Thomastown, 3076, Victoria''\<rparr>,
     \<lparr>acct_id = ''A-0002'', acct_type = GAS, balance = 0,
       address = ''74 Taltarni Rd, Yawong Hills, 3478, Victoria''\<rparr>,
     \<lparr>acct_id = ''A-0003'', acct_type = ELECTRICITY, balance = - 40,
       address = ''44 William Road, Cresswell Downs, 0862, Northern Territory''\<rparr>,
     \<lparr>acct_id = ''A-0004'', acct_type = ELECTRICITY, balance = 50,
       address = ''87 Carolina Park Road, Forresters Beach, 2260, New South Wales''\<rparr>,
     \<lparr>acct_id = ''A-0005'', acct_type = GAS, balance = 25,
       address = ''12 Sunset Blvd, Redcliffe, 4020, Queensland''\<rparr>,
     \<lparr>acct_id = ''A-0006'', acct_type = ELECTRICITY, balance = - 15,
       address = ''3 Ocean View Dr, Torquay, 3228, Victoria''\<rparr>,
     \<lparr>acct_id = ''A-0007'', acct_type = GAS, balance = 0,
       address = ''150 Greenway Cres, Mawson Lakes, 5095, South Australia''\<rparr>,
     \<lparr>acct_id = ''A-0008'', acct_type = ELECTRICITY, balance = 120,
       address = ''88 Harbour St, Sydney, 2000, New South Wales''\<rparr>,
     \<lparr>acct_id = ''A-0009'', acct_type = GAS, balance = - 60,
       address = ''22 Boulder Rd, Kalgoorlie, 6430, Western Australia''\<rparr>]"

text \<open>
  \<^verbatim>\<open>export async function GET() {
    await new Promise((resolve) => setTimeout(resolve, 1000));
    return NextResponse.json(accounts);
  }\<close>
  The handler takes no argument and reads the module-level array. The array is the only
  state of the module, so the model passes it explicitly: \<open>GET\<close> takes the store and
  returns the response together with the store it leaves behind. \<open>NextResponse.json\<close>
  without an init object answers with status 200. The timer is recorded as the number of
  milliseconds waited before the response is produced.
\<close>

record accounts_response =
  delay_ms :: nat
  acc_status :: nat
  acc_body :: "EnergyAccount list"

definition GET :: "EnergyAccount list \<Rightarrow> accounts_response \<times> EnergyAccount list" where
  "GET store = (\<lparr>delay_ms = 1000, acc_status = 200, acc_body = store\<rparr>, store)"

text \<open>\<open>n\<close> successive invocations against a store: the responses in order, and the final store.\<close>

fun GET_calls :: "nat \<Rightarrow> EnergyAccount list \<Rightarrow> accounts_response list \<times> EnergyAccount list" where
  "GET_calls 0 store = ([], store)"
| "GET_calls (Suc n) store =
     (let (r, store') = GET store; (rs, store'') = GET_calls n store' in (r # rs, store''))"


section \<open>Client-side filtering (the dashboard page)\<close>

text \<open>
  \<^verbatim>\<open>type AccountType = "ELECTRICITY" | "GAS" | "ALL";\<close>
  The filter tag is a second union with one more member. The comparison
  \<^verbatim>\<open>account.type === selectedType\<close> compares the two strings, so an account type is
  compared through the tag with the same spelling (\<open>ALL\<close> is reserved syntax of HOL, so
  the three tags carry a prefix).
\<close>

datatype AccountType = TAG_ELECTRICITY | TAG_GAS | TAG_ALL

fun tag_of :: "energy_type \<Rightarrow> AccountType" where
  "tag_of ELECTRICITY = TAG_ELECTRICITY"
| "tag_of GAS = TAG_GAS"

text \<open>
  \<^verbatim>\<open>const getFilteredAccounts = () => {
    return accounts.filter((account) =>
      selectedType === "ALL" ? true : account.type === selectedType);
  };\<close>
  The closure reads the component state \<open>accounts\<close> and \<open>selectedType\<close>; both are
  arguments here.
\<close>

definition getFilteredAccounts :: "EnergyAccount list \<Rightarrow> AccountType \<Rightarrow> EnergyAccount list" where
  "getFilteredAccounts accs selectedType =
     filter (\<lambda>account. if selectedType = TAG_ALL then True else tag_of (acct_type account) = selectedType) accs"


section \<open>JavaScript strings\<close>

text \<open>
  A string is a \<open>char list\<close>. Every function below only tells the ASCII digits, the slash
  and the line terminators from the other characters, and cuts a string only after the
  other characters have been removed, so that reading a non-ASCII character as the several
  bytes of its encoding gives the same results as reading it as one code unit.
\<close>

definition is_digit :: "char \<Rightarrow> bool" where
  "is_digit c = (c \<in> set ''0123456789'')"

definition digit_val :: "char \<Rightarrow> nat" where
  "digit_val c = of_char c - 48"

text \<open>
  \<^verbatim>\<open>s.slice(start, end)\<close>: a negative index counts from the end, every index is clamped
  to the length of the string, and an absent \<open>end\<close> is the length.
\<close>

definition slice_index :: "nat \<Rightarrow> int \<Rightarrow> nat" where
  "slice_index len k = (if k < 0 then nat (max (int len + k) 0) else min (nat k) len)"

definition slice :: "string \<Rightarrow> int \<Rightarrow> int option \<Rightarrow> string" where
  "slice s start fin =
     (let len = length s;
          lo = slice_index len start;
          hi = (case fin of None \<Rightarrow> len | Some e \<Rightarrow> slice_index len e)
      in take (hi - lo) (drop lo s))"

text \<open>\<^verbatim>\<open>value.replace(/\D/g, "")\<close>: every character that is not a digit is replaced by nothing.\<close>

fun replace_D :: "string \<Rightarrow> string" where
  "replace_D [] = []"
| "replace_D (c # cs) = (if is_digit c then c # replace_D cs else replace_D cs)"

text \<open>
  \<^verbatim>\<open>numericValue.match(/.{1,4}/g)\<close>: the successive matches, from left to right, of one
  to four characters other than a line terminator, as many as possible each time; where no
  match starts, the search moves on by one character. The result is \<open>null\<close> when nothing
  matches. (The line terminators U+2028 and U+2029 are not single characters here; the
  formatter applies the match to digits only.)
\<close>

definition is_line_terminator :: "char \<Rightarrow> bool" where
  "is_line_terminator c = (c = CHR 0x0A \<or> c = CHR 0x0D)"

function match_all_1_4 :: "string \<Rightarrow> string list" where
  "match_all_1_4 s =
     (if s = [] then []
      else (let m = takeWhile (\<lambda>c. \<not> is_line_terminator c) (take 4 s)
            in if m = [] then match_all_1_4 (tl s)
               else m # match_all_1_4 (drop (length m) s)))"
  by pat_completeness auto
termination
  by (relation "measure length") (auto simp: neq_Nil_conv)

declare match_all_1_4.simps [simp del]

definition match_1_4 :: "string \<Rightarrow> string list option" where
  "match_1_4 s = (let ms = match_all_1_4 s in if ms = [] then None else Some ms)"

text \<open>\<^verbatim>\<open>parts.join(sep)\<close>\<close>

fun join :: "string \<Rightarrow> string list \<Rightarrow> string" where
  "join sep [] = []"
| "join sep [p] = p"
| "join sep (p # q # ps) = p @ sep @ join sep (q # ps)"

text \<open>\<^verbatim>\<open>val.split("/")\<close>: the pieces between the separators; never the empty array.\<close>

fun split_on :: "char \<Rightarrow> string \<Rightarrow> string list" where
  "split_on sep [] = [[]]"
| "split_on sep (c # cs) =
     (if c = sep then [] # split_on sep cs
      else (case split_on sep cs of [] \<Rightarrow> [[c]] | p # ps \<Rightarrow> (c # p) # ps))"


section \<open>The input formatters (utils/formatters)\<close>

text \<open>
  \<^verbatim>\<open>export const formatCardNumber: FormatFunction = (value) => {
    const numericValue = value.replace(/\D/g, "").slice(0, 16);
    const parts = numericValue.match(/.{1,4}/g) || [];
    return parts.join(" ");
  };\<close>
\<close>

definition formatCardNumber :: "string \<Rightarrow> string" where
  "formatCardNumber v =
     (let numericValue = slice (replace_D v) 0 (Some 16);
          parts = (case match_1_4 numericValue of None \<Rightarrow> [] | Some ms \<Rightarrow> ms)
      in join '' '' parts)"

text \<open>
  \<^verbatim>\<open>export const formatExpiryDate: FormatFunction = (value) => {
    const cleaned = value.replace(/\D/g, "").slice(0, 4);
    if (cleaned.length >= 2) {
      return `${cleaned.slice(0, 2)}/${cleaned.slice(2)}`;
    }
    return cleaned;
  };\<close>
\<close>

definition formatExpiryDate :: "string \<Rightarrow> string" where
  "formatExpiryDate v =
     (let cleaned = slice (replace_D v) 0 (Some 4)
      in if length cleaned \<ge> 2 then slice cleaned 0 (Some 2) @ ''/'' @ slice cleaned 2 None
         else cleaned)"

text \<open>
  \<^verbatim>\<open>export const formatCVV: FormatFunction = (value) => {
    return value.replace(/\D/g, "").slice(0, 4);
  };\<close>
\<close>

definition formatCVV :: "string \<Rightarrow> string" where
  "formatCVV v = slice (replace_D v) 0 (Some 4)"

subsection \<open>The formatters as the specification words them\<close>

text \<open>
  Strip the non-digits, truncate, group into chunks of four, separate the chunks by single
  spaces; insert a slash after the second digit. These definitions follow the wording of
  the specification and are compared with the functions above.
\<close>

definition spec_strip_non_digits :: "string \<Rightarrow> string" where
  "spec_strip_non_digits v = filter is_digit v"

definition spec_truncate :: "nat \<Rightarrow> string \<Rightarrow> string" where
  "spec_truncate n v = take n v"

fun spec_chunks_of_4 :: "string \<Rightarrow> string list" where
  "spec_chunks_of_4 [] = []"
| "spec_chunks_of_4 (a # b # c # d # e # rest) = [a, b, c, d] # spec_chunks_of_4 (e # rest)"
| "spec_chunks_of_4 v = [v]"

definition spec_space_separated :: "string list \<Rightarrow> string" where
  "spec_space_separated ps =
     (case ps of [] \<Rightarrow> [] | p # qs \<Rightarrow> p @ concat (map (\<lambda>q. CHR '' '' # q) qs))"

definition spec_formatCardNumber :: "string \<Rightarrow> string" where
  "spec_formatCardNumber v =
     spec_space_separated (spec_chunks_of_4 (spec_truncate 16 (spec_strip_non_digits v)))"

definition spec_formatExpiryDate :: "string \<Rightarrow> string" where
  "spec_formatExpiryDate v =
     (let ds = spec_truncate 4 (spec_strip_non_digits v)
      in if 2 \<le> length ds then take 2 ds @ [CHR ''/''] @ drop 2 ds else ds)"

definition spec_formatCVV :: "string \<Rightarrow> string" where
  "spec_formatCVV v = spec_truncate 4 (spec_strip_non_digits v)"


section \<open>Client-side validation rules (utils/validationSchema)\<close>

text \<open>
  \<^verbatim>\<open>cvv: z.string().min(1, "CVV is required").regex(/^\d{3,4}$/, "CVV must be 3 or 4 digits")\<close>
  A field is accepted when none of its checks raises an issue.
\<close>

definition regex_cvv :: "string \<Rightarrow> bool" where
  "regex_cvv val = ((length val = 3 \<or> length val = 4) \<and> list_all is_digit val)"

definition cvv_valid :: "string \<Rightarrow> bool" where
  "cvv_valid val = (1 \<le> length val \<and> regex_cvv val)"

text \<open>
  The current date. \<^verbatim>\<open>new Date()\<close> is an instant; read in local time it lies in a
  calendar month, some milliseconds after the first instant of that month. An instant is
  kept as the year, the month index (0 to 11) and that number of milliseconds, and two
  instants compare as these triples do, as local time does not run backwards across the
  start of a month.
\<close>

record local_time =
  lt_year :: int
  lt_month :: int
  lt_ms :: nat

definition date_gt :: "local_time \<Rightarrow> local_time \<Rightarrow> bool" where
  "date_gt a b =
     (lt_year a > lt_year b \<or>
      (lt_year a = lt_year b \<and>
        (lt_month a > lt_month b \<or> (lt_month a = lt_month b \<and> lt_ms a > lt_ms b))))"

text \<open>
  \<^verbatim>\<open>new Date(year, monthIndex)\<close>: the first instant, in local time, of the month; a month
  index outside 0 to 11 carries into the year, and a year from 0 to 99 means 1900 plus it.
\<close>

definition Date_ym :: "int \<Rightarrow> int \<Rightarrow> local_time" where
  "Date_ym y m =
     (let yr = (if 0 \<le> y \<and> y \<le> 99 then 1900 + y else y)
      in \<lparr>lt_year = yr + m div 12, lt_month = m mod 12, lt_ms = 0\<rparr>)"

text \<open>
  \<^verbatim>\<open>parseInt\<close> on a piece of the split string, or on \<open>undefined\<close> when the piece is
  absent. On a non-empty string of decimal digits the result is its decimal value. Every
  other argument gives \<open>None\<close>: it stands for \<open>NaN\<close>, and also for the arguments with
  another prefix (a sign, blanks, \<open>0x\<close>, digits followed by something else), whose value is
  not computed here. Such arguments reach the refinement only in a string that the pattern
  check has already refused.
\<close>

definition decimal_value :: "string \<Rightarrow> int" where
  "decimal_value ds = foldl (\<lambda>acc c. 10 * acc + int (digit_val c)) 0 ds"

definition parseInt :: "string option \<Rightarrow> int option" where
  "parseInt arg =
     (case arg of
        None \<Rightarrow> None
      | Some ds \<Rightarrow> if ds \<noteq> [] \<and> list_all is_digit ds then Some (decimal_value ds) else None)"

definition nth_opt :: "'a list \<Rightarrow> nat \<Rightarrow> 'a option" where
  "nth_opt xs i = (if i < length xs then Some (xs ! i) else None)"

text \<open>
  \<^verbatim>\<open>expiryDate: z.string().min(1, "Expiry date is required")
    .regex(/^\d{2}\/\d{2}$/, "Use MM/YY format")
    .refine((val) => {
      const [month, year] = val.split("/");
      const expiry = new Date(2000 + parseInt(year), parseInt(month) - 1);
      return expiry > new Date() && parseInt(month) <= 12;
    }, "Invalid expiry date")\<close>
  A comparison with \<open>NaN\<close> or with an invalid date is false.
\<close>

definition regex_mmyy :: "string \<Rightarrow> bool" where
  "regex_mmyy val =
     (length val = 5 \<and> is_digit (val ! 0) \<and> is_digit (val ! 1) \<and> val ! 2 = CHR ''/'' \<and>
      is_digit (val ! 3) \<and> is_digit (val ! 4))"

definition expiry_refine :: "local_time \<Rightarrow> string \<Rightarrow> bool" where
  "expiry_refine now val =
     (let parts = split_on CHR ''/'' val;
          month = nth_opt parts 0;
          year = nth_opt parts 1
      in case (parseInt year, parseInt month) of
           (Some y, Some m) \<Rightarrow> date_gt (Date_ym (2000 + y) (m - 1)) now \<and> m \<le> 12
         | _ \<Rightarrow> False)"

definition expiryDate_valid :: "local_time \<Rightarrow> string \<Rightarrow> bool" where
  "expiryDate_valid now val = (1 \<le> length val \<and> regex_mmyy val \<and> expiry_refine now val)"

text \<open>
  Modelled from the spec: the card-number rule calls \<^verbatim>\<open>Payment.fns.validateCardNumber\<close> of
  the package \<open>payment\<close>, which is not among the sources. The glossary calls a number
  Luhn-valid when it passes the standard card-number checksum: from the rightmost digit
  leftwards every second digit is doubled, 9 is taken off a doubled digit above 9, and the
  sum of all digits is a multiple of 10.
\<close>

fun luhn_sum :: "nat list \<Rightarrow> nat" where
  "luhn_sum [] = 0"
| "luhn_sum [d] = d"
| "luhn_sum (d # e # ds) = d + (if 2 * e > 9 then 2 * e - 9 else 2 * e) + luhn_sum ds"

definition luhn_valid :: "string \<Rightarrow> bool" where
  "luhn_valid val =
     (val \<noteq> [] \<and> list_all is_digit val \<and> luhn_sum (rev (map digit_val val)) mod 10 = 0)"


section \<open>The payment endpoint (api/processPayment)\<close>

text \<open>
  The value that \<^verbatim>\<open>await request.json()\<close> returns. An object is the list of its
  properties, each key once. The schema looks at the type of a number only, so its value is
  kept as an \<open>int\<close>.
\<close>

datatype json =
    JNull
  | JBool bool
  | JNumber int
  | JString string
  | JArray "json list"
  | JObject "(string \<times> json) list"

text \<open>What \<^verbatim>\<open>request.json()\<close> throws when the body cannot be read as JSON.\<close>

datatype body_error = SyntaxError | TypeError

text \<open>
  The issues of a \<open>ZodError\<close> (the library zod, version 3, whose error carries them as
  \<^verbatim>\<open>error.errors\<close>): the code, the path of the offending value and the message.
\<close>

datatype zod_code = invalid_type | invalid_enum_value

record ZodIssue =
  code :: zod_code
  path :: "string list"
  message :: string

datatype caught = BodyError body_error | ZodError "ZodIssue list"

text \<open>The name zod gives to the type of a value; an absent property is \<open>undefined\<close>.\<close>

fun parsed_type :: "json option \<Rightarrow> string" where
  "parsed_type None = ''undefined''"
| "parsed_type (Some JNull) = ''null''"
| "parsed_type (Some (JBool b)) = ''boolean''"
| "parsed_type (Some (JNumber n)) = ''number''"
| "parsed_type (Some (JString s)) = ''string''"
| "parsed_type (Some (JArray xs)) = ''array''"
| "parsed_type (Some (JObject ps)) = ''object''"

definition invalid_type_issue :: "string list \<Rightarrow> string \<Rightarrow> json option \<Rightarrow> ZodIssue" where
  "invalid_type_issue p expected v =
     \<lparr>code = invalid_type, path = p,
      message = (if v = None then ''Required''
                 else ''Expected '' @ expected @ '', received '' @ parsed_type v)\<rparr>"

text \<open>\<^verbatim>\<open>z.string()\<close>: any string, whatever its content.\<close>

fun z_string :: "string list \<Rightarrow> json option \<Rightarrow> ZodIssue list + string" where
  "z_string p (Some (JString s)) = Inr s"
| "z_string p v = Inl [invalid_type_issue p ''string'' v]"

text \<open>
  \<^verbatim>\<open>z.enum(["ELECTRICITY", "GAS"])\<close>: one of the two strings. In its messages zod lists the
  values in single quotes, joined by a bar.
\<close>

definition quoted :: "string \<Rightarrow> string" where
  "quoted s = [CHR 0x27] @ s @ [CHR 0x27]"

definition enum_expected :: string where
  "enum_expected = quoted ''ELECTRICITY'' @ '' | '' @ quoted ''GAS''"

fun z_enum :: "string list \<Rightarrow> json option \<Rightarrow> ZodIssue list + energy_type" where
  "z_enum p (Some (JString s)) =
     (if s = ''ELECTRICITY'' then Inr ELECTRICITY
      else if s = ''GAS'' then Inr GAS
      else Inl [\<lparr>code = invalid_enum_value, path = p,
                 message = ''Invalid enum value. Expected '' @ enum_expected @ '', received ''
                           @ quoted s\<rparr>])"
| "z_enum p v = Inl [invalid_type_issue p enum_expected v]"

text \<open>
  \<^verbatim>\<open>const paymentRequestSchema = z.object({
    amount: z.string(), cardNumber: z.string(), expiryDate: z.string(), cvv: z.string(),
    accountId: z.string(), accountType: z.enum(["ELECTRICITY", "GAS"]),
  });\<close>
  \<open>parse\<close> refuses a value that is not an object with one issue at the empty path. In an
  object it checks the six keys in the order of the schema, collects the issues of all of
  them, and drops every other key. It throws a \<open>ZodError\<close> when there is an issue and
  returns the six values otherwise.
\<close>

record PaymentRequest =
  amount :: string
  cardNumber :: string
  expiryDate :: string
  cvv :: string
  accountId :: string
  accountType :: energy_type

fun issues_of :: "ZodIssue list + 'a \<Rightarrow> ZodIssue list" where
  "issues_of (Inl is) = is"
| "issues_of (Inr v) = []"

definition paymentRequestSchema_parse :: "json \<Rightarrow> ZodIssue list + PaymentRequest" where
  "paymentRequestSchema_parse body =
     (case body of
        JObject props \<Rightarrow>
          (let field = map_of props;
               a = z_string [''amount''] (field ''amount'');
               c = z_string [''cardNumber''] (field ''cardNumber'');
               e = z_string [''expiryDate''] (field ''expiryDate'');
               v = z_string [''cvv''] (field ''cvv'');
               i = z_string [''accountId''] (field ''accountId'');
               t = z_enum [''accountType''] (field ''accountType'')
           in case (a, c, e, v, i, t) of
                (Inr a', Inr c', Inr e', Inr v', Inr i', Inr t') \<Rightarrow>
                  Inr \<lparr>amount = a', cardNumber = c', expiryDate = e', cvv = v',
                       accountId = i', accountType = t'\<rparr>
              | _ \<Rightarrow> Inl (issues_of a @ issues_of c @ issues_of e @ issues_of v @
                          issues_of i @ issues_of t))
      | _ \<Rightarrow> Inl [invalid_type_issue [] ''object'' (Some body)])"

text \<open>
  \<^verbatim>\<open>export async function POST(request: Request) {
    try {
      console.log("Processing payment...");
      const body = await request.json();
      const validatedData = paymentRequestSchema.parse(body);
      console.log("Payment data validated:", {
        ...validatedData,
        cardNumber: "****" + validatedData.cardNumber.slice(-4),
        cvv: "***",
      });
      return NextResponse.json({ success: true, message: "Payment processed successfully" });
    } catch (error) {
      console.error("Payment processing error:", error);
      if (error instanceof z.ZodError) {
        return NextResponse.json(
          { success: false, message: "Invalid payment data", errors: error.errors },
          { status: 400 });
      }
      return NextResponse.json(
        { success: false, message: "Payment processing failed" }, { status: 500 });
    }
  }\<close>
  A request is what reading its body gives: the parsed value, or the error thrown. The
  handler returns the response and the lines it wrote to the console.
\<close>

type_synonym request = "body_error + json"

record payment_response =
  status :: nat
  success :: bool
  resp_message :: string
  errors :: "ZodIssue list option"

datatype console_line =
    ConsoleLog string
  | ConsoleLogData string PaymentRequest
  | ConsoleError string caught

definition masked :: "PaymentRequest \<Rightarrow> PaymentRequest" where
  "masked validatedData =
     validatedData\<lparr>cardNumber := ''****'' @ slice (cardNumber validatedData) (- 4) None,
                    cvv := ''***''\<rparr>"

definition POST_try :: "request \<Rightarrow> caught \<times> console_line list + payment_response \<times> console_line list" where
  "POST_try request =
     (let log1 = [ConsoleLog ''Processing payment...'']
      in case request of
           Inl err \<Rightarrow> Inl (BodyError err, log1)
         | Inr body \<Rightarrow>
             (case paymentRequestSchema_parse body of
                Inl issues \<Rightarrow> Inl (ZodError issues, log1)
              | Inr validatedData \<Rightarrow>
                  Inr (\<lparr>status = 200, success = True,
                        resp_message = ''Payment processed successfully'', errors = None\<rparr>,
                       log1 @ [ConsoleLogData ''Payment data validated:'' (masked validatedData)])))"

definition POST_catch :: "caught \<Rightarrow> payment_response \<times> console_line list" where
  "POST_catch error =
     (let log = [ConsoleError ''Payment processing error:'' error]
      in case error of
           ZodError issues \<Rightarrow>
             (\<lparr>status = 400, success = False, resp_message = ''Invalid payment data'',
               errors = Some issues\<rparr>, log)
         | BodyError err \<Rightarrow>
             (\<lparr>status = 500, success = False, resp_message = ''Payment processing failed'',
               errors = None\<rparr>, log))"

definition POST :: "request \<Rightarrow> payment_response \<times> console_line list" where
  "POST request =
     (case POST_try request of
        Inr result \<Rightarrow> result
      | Inl (error, log) \<Rightarrow> (let (resp, log') = POST_catch error in (resp, log @ log')))"

text \<open>The paths of the entries of the \<open>errors\<close> array of a response; none when it has no array.\<close>

definition error_paths :: "payment_response \<Rightarrow> string list list" where
  "error_paths resp = (case errors resp of None \<Rightarrow> [] | Some issues \<Rightarrow> map path issues)"

subsection \<open>Two request bodies\<close>

text \<open>
  A body with a negative amount and a body with the values of the end-to-end example of the
  specification; the card number is the example of the API documentation.
\<close>

definition minus_5_body :: json where
  "minus_5_body = JObject
     [(''amount'', JString ''-5''), (''cardNumber'', JString ''4242424242424242''),
      (''expiryDate'', JString ''12/99''), (''cvv'', JString ''123''),
      (''accountId'', JString ''A-0001''), (''accountType'', JString ''ELECTRICITY'')]"

definition valid_payment_props :: "(string \<times> json) list" where
  "valid_payment_props =
     [(''amount'', JString ''50.00''), (''cardNumber'', JString ''4242424242424242''),
      (''expiryDate'', JString ''12/99''), (''cvv'', JString ''123''),
      (''accountId'', JString ''A-0001''), (''accountType'', JString ''ELECTRICITY'')]"


section \<open>The listing endpoint returns the fixed store\<close>

lemma GET_calls_replicate:
  "GET_calls n store = (replicate n (fst (GET store)), store)"
  by (induction n) (simp_all add: GET_def)

text \<open>
  Claim C10. Every invocation of the listing endpoint answers with status 200 and the same
  complete, ordered sequence of the nine hard-coded accounts \<open>A-0001\<close> to \<open>A-0009\<close>, each
  with its type and its signed balance; the handler takes no input, filters nothing, and
  leaves the store as it found it, so any number of successive calls give the same response.
\<close>

theorem GET_returns_fixed_accounts:
  "GET_calls n accounts =
     (replicate n \<lparr>delay_ms = 1000, acc_status = 200, acc_body = accounts\<rparr>, accounts) \<and>
   acc_status (fst (GET accounts)) = 200 \<and>
   acc_body (fst (GET accounts)) = accounts \<and>
   snd (GET accounts) = accounts \<and>
   length accounts = 9 \<and>
   map acct_id accounts =
     [''A-0001'', ''A-0002'', ''A-0003'', ''A-0004'', ''A-0005'', ''A-0006'', ''A-0007'',
      ''A-0008'', ''A-0009''] \<and>
   map acct_type accounts =
     [ELECTRICITY, GAS, ELECTRICITY, ELECTRICITY, GAS, ELECTRICITY, GAS, ELECTRICITY, GAS] \<and>
   map balance accounts = [30, 0, - 40, 50, 25, - 15, 0, 120, - 60]"
proof -
  have calls: "GET_calls n accounts =
     (replicate n \<lparr>delay_ms = 1000, acc_status = 200, acc_body = accounts\<rparr>, accounts)"
    by (simp add: GET_calls_replicate GET_def)
  have one: "acc_status (fst (GET accounts)) = 200 \<and> acc_body (fst (GET accounts)) = accounts \<and>
      snd (GET accounts) = accounts"
    by (simp add: GET_def)
  have store: "length accounts = 9 \<and>
    map acct_id accounts =
     [''A-0001'', ''A-0002'', ''A-0003'', ''A-0004'', ''A-0005'', ''A-0006'', ''A-0007'',
      ''A-0008'', ''A-0009''] \<and>
    map acct_type accounts =
     [ELECTRICITY, GAS, ELECTRICITY, ELECTRICITY, GAS, ELECTRICITY, GAS, ELECTRICITY, GAS] \<and>
    map balance accounts = [30, 0, - 40, 50, 25, - 15, 0, 120, - 60]"
    by (simp add: accounts_def)
  from calls one store show ?thesis by blast
qed


section \<open>Filtering the account list\<close>

text \<open>
  Claim C5. For every account list \<open>L\<close> and every filter tag \<open>T\<close>: filtering by \<open>ALL\<close>
  returns \<open>L\<close> itself, and filtering by another tag returns a subset of \<open>L\<close> (in the order
  of \<open>L\<close>) in which the type of every element is \<open>T\<close>.
\<close>

theorem getFilteredAccounts_subset:
  "getFilteredAccounts L TAG_ALL = L \<and>
   (T \<noteq> TAG_ALL \<longrightarrow>
      set (getFilteredAccounts L T) \<subseteq> set L \<and>
      subseq (getFilteredAccounts L T) L \<and>
      (\<forall>a \<in> set (getFilteredAccounts L T). tag_of (acct_type a) = T))"
  by (auto simp: getFilteredAccounts_def)

theorem getFilteredAccounts_subset_witness:
  "TAG_GAS \<noteq> TAG_ALL \<and>
   getFilteredAccounts accounts TAG_ALL = accounts \<and>
   getFilteredAccounts accounts TAG_GAS \<noteq> [] \<and>
   set (getFilteredAccounts accounts TAG_GAS) \<subseteq> set accounts \<and>
   subseq (getFilteredAccounts accounts TAG_GAS) accounts \<and>
   list_all (\<lambda>a. tag_of (acct_type a) = TAG_GAS) (getFilteredAccounts accounts TAG_GAS)"
proof -
  have ne: "getFilteredAccounts accounts TAG_GAS \<noteq> []"
    by (simp add: getFilteredAccounts_def accounts_def)
  have tag: "TAG_GAS \<noteq> TAG_ALL" by simp
  from getFilteredAccounts_subset [of accounts TAG_GAS] ne tag show ?thesis
    unfolding list_all_iff by blast
qed


section \<open>The formatters\<close>

lemma replace_D_filter: "replace_D v = filter is_digit v"
  by (induction v) simp_all

lemma slice_prefix: "slice s 0 (Some (int n)) = take n s"
  by (simp add: slice_def slice_index_def Let_def min_def)

lemma slice_suffix: "slice s (int n) None = drop n s"
  by (simp add: slice_def slice_index_def Let_def min_def)

lemma digit_not_terminator: "is_digit c \<Longrightarrow> \<not> is_line_terminator c"
  by (auto simp: is_digit_def is_line_terminator_def)

lemma match_all_Nil: "match_all_1_4 [] = []"
  by (simp add: match_all_1_4.simps [of "[]"])

lemma match_all_short:
  assumes "s \<noteq> []" "length s \<le> 4" "list_all (\<lambda>c. \<not> is_line_terminator c) s"
  shows "match_all_1_4 s = [s]"
proof -
  have "takeWhile (\<lambda>c. \<not> is_line_terminator c) (take 4 s) = s"
    using assms(2,3) by (simp add: list_all_iff)
  with assms(1) show ?thesis
    by (simp add: match_all_1_4.simps [of s] match_all_Nil)
qed

lemma match_all_chunks:
  "list_all (\<lambda>c. \<not> is_line_terminator c) s \<Longrightarrow> match_all_1_4 s = spec_chunks_of_4 s"
proof (induction s rule: spec_chunks_of_4.induct)
  case 1
  show ?case by (simp add: match_all_Nil)
next
  case (2 a b c d e rest)
  then have "match_all_1_4 (e # rest) = spec_chunks_of_4 (e # rest)" by simp
  with "2.prems" show ?case
    by (simp add: match_all_1_4.simps [of "a # b # c # d # e # rest"])
qed (simp_all add: match_all_short)

lemma join_concat:
  "join sep ps = (case ps of [] \<Rightarrow> [] | p # qs \<Rightarrow> p @ concat (map (\<lambda>q. sep @ q) qs))"
  by (induction sep ps rule: join.induct) simp_all

lemma join_space_separated: "join '' '' ps = spec_space_separated ps"
proof -
  have "(@) '' '' = (#) CHR '' ''" by (rule ext) simp
  then show ?thesis by (cases ps) (simp_all add: join_concat spec_space_separated_def)
qed

lemma concat_chunks: "concat (spec_chunks_of_4 s) = s"
  by (induction s rule: spec_chunks_of_4.induct) simp_all

lemma chunks_digits:
  "list_all is_digit s \<Longrightarrow> list_all (list_all is_digit) (spec_chunks_of_4 s)"
  by (induction s rule: spec_chunks_of_4.induct) simp_all

lemma space_not_digit: "\<not> is_digit CHR '' ''"
  by (simp add: is_digit_def)

lemma filter_tail_digits:
  "list_all (list_all is_digit) qs \<Longrightarrow>
   filter is_digit (concat (map (\<lambda>q. CHR '' '' # q) qs)) = concat qs"
  by (induction qs) (simp_all add: space_not_digit list_all_iff)

lemma filter_space_separated:
  "list_all (list_all is_digit) ps \<Longrightarrow> filter is_digit (spec_space_separated ps) = concat ps"
  by (cases ps) (simp_all add: spec_space_separated_def filter_tail_digits list_all_iff)

lemma formatCardNumber_spec: "formatCardNumber v = spec_formatCardNumber v"
proof -
  let ?d = "take 16 (filter is_digit v)"
  have dig: "list_all (\<lambda>c. \<not> is_line_terminator c) ?d"
    by (auto simp: list_all_iff digit_not_terminator dest: in_set_takeD)
  have sl: "slice (replace_D v) 0 (Some 16) = ?d"
    using slice_prefix [of "replace_D v" 16] by (simp add: replace_D_filter)
  have m: "(case match_1_4 ?d of None \<Rightarrow> [] | Some ms \<Rightarrow> ms) = spec_chunks_of_4 ?d"
    by (simp add: match_1_4_def Let_def match_all_chunks [OF dig])
  show ?thesis
    by (simp add: formatCardNumber_def spec_formatCardNumber_def Let_def sl m
        join_space_separated spec_truncate_def spec_strip_non_digits_def)
qed

lemma digits_of_formatCardNumber:
  "filter is_digit (formatCardNumber v) = take 16 (filter is_digit v)"
proof -
  have "list_all is_digit (take 16 (filter is_digit v))"
    by (auto simp: list_all_iff dest: in_set_takeD)
  then show ?thesis
    by (simp add: formatCardNumber_spec spec_formatCardNumber_def spec_truncate_def
        spec_strip_non_digits_def filter_space_separated chunks_digits concat_chunks)
qed

lemma formatExpiryDate_spec: "formatExpiryDate v = spec_formatExpiryDate v"
proof -
  have sl: "slice (replace_D v) 0 (Some 4) = take 4 (filter is_digit v)"
    using slice_prefix [of "replace_D v" 4] by (simp add: replace_D_filter)
  have p: "slice s 0 (Some 2) = take 2 s" for s
    using slice_prefix [of s 2] by simp
  have q: "slice s 2 None = drop 2 s" for s
    using slice_suffix [of s 2] by simp
  show ?thesis
    by (simp add: formatExpiryDate_def spec_formatExpiryDate_def Let_def sl p q
        spec_truncate_def spec_strip_non_digits_def)
qed

lemma formatCVV_spec: "formatCVV v = spec_formatCVV v"
  using slice_prefix [of "replace_D v" 4]
  by (simp add: formatCVV_def spec_formatCVV_def replace_D_filter spec_truncate_def
      spec_strip_non_digits_def)

text \<open>
  Claim C7. The three formatters are total functions on strings that do what the
  specification says: \<open>formatCardNumber\<close> strips the non-digits, keeps at most 16 digits
  and groups them into chunks of four separated by single spaces; \<open>formatExpiryDate\<close>
  strips the non-digits, keeps at most four digits and puts a slash after the second digit
  as soon as there are two; \<open>formatCVV\<close> strips the non-digits and keeps at most four
  digits. Each function is defined for every string (the one recursion that is not
  structural has its termination proof) and equals the function worded by the specification.
\<close>

theorem formatters_as_specified:
  "formatCardNumber v = spec_formatCardNumber v \<and>
   formatExpiryDate v = spec_formatExpiryDate v \<and>
   formatCVV v = spec_formatCVV v"
  by (simp add: formatCardNumber_spec formatExpiryDate_spec formatCVV_spec)

text \<open>
  Claim C6. Formatting a card number twice gives the same string as formatting it once,
  for every input string.
\<close>

theorem formatCardNumber_idempotent:
  "formatCardNumber (formatCardNumber x) = formatCardNumber x"
proof -
  have "spec_formatCardNumber (formatCardNumber x) =
        spec_space_separated (spec_chunks_of_4 (take 16 (take 16 (filter is_digit x))))"
    by (simp add: spec_formatCardNumber_def spec_truncate_def spec_strip_non_digits_def
        digits_of_formatCardNumber)
  also have "\<dots> = spec_formatCardNumber x"
    by (simp add: spec_formatCardNumber_def spec_truncate_def spec_strip_non_digits_def)
  finally show ?thesis by (simp add: formatCardNumber_spec)
qed


section \<open>The expiry rule\<close>

lemma digit_not_slash: "is_digit c \<Longrightarrow> c \<noteq> CHR ''/''"
  by (auto simp: is_digit_def)

lemma split_mmyy:
  "is_digit a \<Longrightarrow> is_digit b \<Longrightarrow> is_digit c \<Longrightarrow> is_digit d \<Longrightarrow>
   split_on CHR ''/'' [a, b, CHR ''/'', c, d] = [[a, b], [c, d]]"
  by (simp add: digit_not_slash)

lemma expiryDate_valid_mmyy:
  assumes "is_digit a" "is_digit b" "is_digit c" "is_digit d"
  shows "expiryDate_valid now [a, b, CHR ''/'', c, d] \<longleftrightarrow>
         date_gt (Date_ym (2000 + decimal_value [c, d]) (decimal_value [a, b] - 1)) now \<and>
         decimal_value [a, b] \<le> 12"
proof -
  have sp: "split_on CHR ''/'' [a, b, CHR ''/'', c, d] = [[a, b], [c, d]]"
    using assms by (rule split_mmyy)
  have re: "regex_mmyy [a, b, CHR ''/'', c, d]"
    using assms by (simp add: regex_mmyy_def)
  have pm: "parseInt (Some [a, b]) = Some (decimal_value [a, b])"
    using assms by (simp add: parseInt_def)
  have py: "parseInt (Some [c, d]) = Some (decimal_value [c, d])"
    using assms by (simp add: parseInt_def)
  have "expiry_refine now [a, b, CHR ''/'', c, d] \<longleftrightarrow>
         date_gt (Date_ym (2000 + decimal_value [c, d]) (decimal_value [a, b] - 1)) now \<and>
         decimal_value [a, b] \<le> 12"
    unfolding expiry_refine_def sp by (simp add: nth_opt_def pm py)
  with re show ?thesis by (simp add: expiryDate_valid_def)
qed

lemma decimal_value_nonneg: "0 \<le> decimal_value [a, b]"
  by (simp add: decimal_value_def)


lemma date_gt_first_instant:
  assumes "0 \<le> lt_month now" "lt_month now < 12" "0 \<le> y"
  shows "date_gt (Date_ym (2000 + y) m) now \<longleftrightarrow>
         lt_year now * 12 + lt_month now < (2000 + y) * 12 + m"
proof -
  define q where "q = m div 12"
  define r where "r = m mod 12"
  have m: "m = 12 * q + r" by (simp add: q_def r_def)
  have r: "0 \<le> r" "r < 12" by (simp_all add: r_def)
  have "date_gt (Date_ym (2000 + y) m) now \<longleftrightarrow>
        lt_year now < 2000 + y + q \<or> (lt_year now = 2000 + y + q \<and> lt_month now < r)"
    using assms(3) by (auto simp: date_gt_def Date_ym_def Let_def q_def r_def)
  also have "\<dots> \<longleftrightarrow> lt_year now * 12 + lt_month now < (2000 + y) * 12 + m"
    using assms(1,2) r m by (simp add: algebra_simps) linarith
  finally show ?thesis .
qed

text \<open>
  Claim C8, as amended. Whatever the current date, \<open>13/99\<close> is rejected (the month is
  above 12); \<open>01/20\<close> is accepted only while the first instant of January 2020 is still
  ahead of the current date, so it is rejected once January 2020 has begun; and \<open>12/99\<close>
  is accepted exactly when the first instant of December 2099 is ahead of the current date.
\<close>

theorem expiry_rule_examples:
  "\<not> expiryDate_valid now ''13/99'' \<and>
   (expiryDate_valid now ''01/20'' \<longleftrightarrow>
      date_gt \<lparr>lt_year = 2020, lt_month = 0, lt_ms = 0\<rparr> now) \<and>
   (expiryDate_valid now ''12/99'' \<longleftrightarrow>
      date_gt \<lparr>lt_year = 2099, lt_month = 11, lt_ms = 0\<rparr> now)"
proof -
  have a: "\<not> expiryDate_valid now ''13/99''"
    using expiryDate_valid_mmyy [of "CHR ''1''" "CHR ''3''" "CHR ''9''" "CHR ''9''" now]
    by (simp add: is_digit_def decimal_value_def digit_val_def)
  have b: "expiryDate_valid now ''01/20'' \<longleftrightarrow>
      date_gt \<lparr>lt_year = 2020, lt_month = 0, lt_ms = 0\<rparr> now"
    using expiryDate_valid_mmyy [of "CHR ''0''" "CHR ''1''" "CHR ''2''" "CHR ''0''" now]
    by (simp add: is_digit_def decimal_value_def digit_val_def Date_ym_def)
  have c: "expiryDate_valid now ''12/99'' \<longleftrightarrow>
      date_gt \<lparr>lt_year = 2099, lt_month = 11, lt_ms = 0\<rparr> now"
    using expiryDate_valid_mmyy [of "CHR ''1''" "CHR ''2''" "CHR ''9''" "CHR ''9''" now]
    by (simp add: is_digit_def decimal_value_def digit_val_def Date_ym_def)
  from a b c show ?thesis by blast
qed

theorem expiry_rule_examples_witness:
  "\<not> expiryDate_valid \<lparr>lt_year = 2026, lt_month = 10, lt_ms = 86400000\<rparr> ''13/99'' \<and>
   \<not> expiryDate_valid \<lparr>lt_year = 2026, lt_month = 10, lt_ms = 86400000\<rparr> ''01/20'' \<and>
   expiryDate_valid \<lparr>lt_year = 2026, lt_month = 10, lt_ms = 86400000\<rparr> ''12/99''"
  using expiry_rule_examples [of "\<lparr>lt_year = 2026, lt_month = 10, lt_ms = 86400000\<rparr>"]
  by (simp add: date_gt_def)

text \<open>
  The claim C8 words the last case by the year: \<open>12/99\<close> accepted exactly when the year
  2099 is in the future. In June 2099 the year 2099 is the current year, not a future one,
  and the rule accepts \<open>12/99\<close>, since December 2099 has not begun.
\<close>

theorem expiry_1299_year_counterexample:
  "expiryDate_valid \<lparr>lt_year = 2099, lt_month = 5, lt_ms = 0\<rparr> ''12/99'' \<and>
   \<not> lt_year \<lparr>lt_year = 2099, lt_month = 5, lt_ms = 0\<rparr> < 2099"
proof -
  have "expiryDate_valid \<lparr>lt_year = 2099, lt_month = 5, lt_ms = 0\<rparr> ''12/99''"
    using expiryDate_valid_mmyy [of "CHR ''1''" "CHR ''2''" "CHR ''9''" "CHR ''9''"
        "\<lparr>lt_year = 2099, lt_month = 5, lt_ms = 0\<rparr>"]
    by (simp add: is_digit_def decimal_value_def digit_val_def Date_ym_def date_gt_def)
  then show ?thesis by simp
qed

text \<open>
  Claim C9. The rule asks for a strictly later month. The expiry is read as the first
  instant of its month and must be greater than the current instant, so a date of two
  digits, a slash and two digits is accepted exactly when its month comes after the current
  month (and its month number is at most 12); in particular an expiry in the current month
  of the current year is rejected.
\<close>

theorem expiry_requires_future_month:
  assumes "is_digit a" "is_digit b" "is_digit c" "is_digit d"
    and "0 \<le> lt_month now" "lt_month now < 12"
  shows "(expiryDate_valid now [a, b, CHR ''/'', c, d] \<longleftrightarrow>
            lt_year now * 12 + lt_month now <
              (2000 + decimal_value [c, d]) * 12 + (decimal_value [a, b] - 1) \<and>
            decimal_value [a, b] \<le> 12) \<and>
         (lt_year now = 2000 + decimal_value [c, d] \<and> lt_month now = decimal_value [a, b] - 1
            \<longrightarrow> \<not> expiryDate_valid now [a, b, CHR ''/'', c, d])"
proof -
  have y: "0 \<le> decimal_value [c, d]" by (rule decimal_value_nonneg)
  have iff: "expiryDate_valid now [a, b, CHR ''/'', c, d] \<longleftrightarrow>
            lt_year now * 12 + lt_month now <
              (2000 + decimal_value [c, d]) * 12 + (decimal_value [a, b] - 1) \<and>
            decimal_value [a, b] \<le> 12"
    using expiryDate_valid_mmyy [OF assms(1-4), of now]
      date_gt_first_instant [OF assms(5,6) y, of "decimal_value [a, b] - 1"]
    by simp
  then show ?thesis by auto
qed

theorem expiry_requires_future_month_witness:
  "is_digit CHR ''1'' \<and> is_digit CHR ''2'' \<and> is_digit CHR ''6'' \<and>
   (0::int) \<le> lt_month \<lparr>lt_year = 2026, lt_month = 10, lt_ms = 86400000\<rparr> \<and>
   lt_month \<lparr>lt_year = 2026, lt_month = 10, lt_ms = 86400000\<rparr> < 12 \<and>
   lt_year \<lparr>lt_year = 2026, lt_month = 10, lt_ms = 86400000\<rparr> = 2000 + decimal_value ''26'' \<and>
   lt_month \<lparr>lt_year = 2026, lt_month = 10, lt_ms = 86400000\<rparr> = decimal_value ''11'' - 1 \<and>
   \<not> expiryDate_valid \<lparr>lt_year = 2026, lt_month = 10, lt_ms = 86400000\<rparr> ''11/26''"
proof -
  have d: "is_digit CHR ''1''" "is_digit CHR ''2''" "is_digit CHR ''6''"
    by (simp_all add: is_digit_def)
  have v: "decimal_value ''26'' = 26" "decimal_value ''11'' = 11"
    by (simp_all add: decimal_value_def digit_val_def)
  from expiry_requires_future_month [of "CHR ''1''" "CHR ''1''" "CHR ''2''" "CHR ''6''"
      "\<lparr>lt_year = 2026, lt_month = 10, lt_ms = 86400000\<rparr>"] d v
  show ?thesis by simp
qed

section \<open>The payment endpoint\<close>

subsection \<open>The schema\<close>

lemma six_results:
  "(case (a, c, e, v, i, t) of
      (Inr a', Inr c', Inr e', Inr v', Inr i', Inr t') \<Rightarrow> f a' c' e' v' i' t'
    | _ \<Rightarrow> g) =
   (if isl a \<or> isl c \<or> isl e \<or> isl v \<or> isl i \<or> isl t then g
    else f (projr a) (projr c) (projr e) (projr v) (projr i) (projr t))"
  by (cases a; cases c; cases e; cases v; cases i; cases t) simp_all

lemma parse_object:
  "paymentRequestSchema_parse (JObject props) =
     (let field = map_of props;
          a = z_string [''amount''] (field ''amount'');
          c = z_string [''cardNumber''] (field ''cardNumber'');
          e = z_string [''expiryDate''] (field ''expiryDate'');
          v = z_string [''cvv''] (field ''cvv'');
          i = z_string [''accountId''] (field ''accountId'');
          t = z_enum [''accountType''] (field ''accountType'')
      in if isl a \<or> isl c \<or> isl e \<or> isl v \<or> isl i \<or> isl t
         then Inl (issues_of a @ issues_of c @ issues_of e @ issues_of v @
                          issues_of i @ issues_of t)
         else Inr \<lparr>amount = projr a, cardNumber = projr c, expiryDate = projr e, cvv = projr v,
                       accountId = projr i, accountType = projr t\<rparr>)"
  by (simp only: paymentRequestSchema_parse_def Let_def six_results json.case)

lemma isl_z_string: "isl (z_string p v) \<longleftrightarrow> \<not> (\<exists>s. v = Some (JString s))"
  by (cases "(p, v)" rule: z_string.cases) simp_all

lemma isl_z_enum:
  "isl (z_enum p v) \<longleftrightarrow> \<not> (v = Some (JString ''ELECTRICITY'') \<or> v = Some (JString ''GAS''))"
  by (cases "(p, v)" rule: z_enum.cases) auto

lemma issues_of_not_isl: "\<not> isl x \<Longrightarrow> issues_of x = []"
  by (cases x) simp_all

lemma z_string_issue_paths:
  "map path (issues_of (z_string p v)) = (if \<exists>s. v = Some (JString s) then [] else [p])"
  by (cases "(p, v)" rule: z_string.cases) (simp_all add: invalid_type_issue_def)

lemma z_enum_issue_paths:
  "map path (issues_of (z_enum p v)) =
     (if v = Some (JString ''ELECTRICITY'') \<or> v = Some (JString ''GAS'') then [] else [p])"
  by (cases "(p, v)" rule: z_enum.cases) (auto simp: invalid_type_issue_def)

lemma parse_well_typed:
  assumes "map_of props ''amount'' = Some (JString a)"
    and "map_of props ''cardNumber'' = Some (JString c)"
    and "map_of props ''expiryDate'' = Some (JString e)"
    and "map_of props ''cvv'' = Some (JString v)"
    and "map_of props ''accountId'' = Some (JString i)"
    and "map_of props ''accountType'' = Some (JString t)"
    and "t = ''ELECTRICITY'' \<or> t = ''GAS''"
  shows "paymentRequestSchema_parse (JObject props) =
           Inr \<lparr>amount = a, cardNumber = c, expiryDate = e, cvv = v, accountId = i,
                accountType = (if t = ''ELECTRICITY'' then ELECTRICITY else GAS)\<rparr>"
  using assms by (auto simp: parse_object Let_def)

lemma parse_Inr_object:
  "(\<exists>r. paymentRequestSchema_parse body = Inr r) \<longleftrightarrow>
   (\<exists>props a c e v i t. body = JObject props \<and>
      map_of props ''amount'' = Some (JString a) \<and>
      map_of props ''cardNumber'' = Some (JString c) \<and>
      map_of props ''expiryDate'' = Some (JString e) \<and>
      map_of props ''cvv'' = Some (JString v) \<and>
      map_of props ''accountId'' = Some (JString i) \<and>
      map_of props ''accountType'' = Some (JString t) \<and>
      (t = ''ELECTRICITY'' \<or> t = ''GAS''))"
proof (cases body)
  case (JObject props)
  have "(\<exists>r. paymentRequestSchema_parse (JObject props) = Inr r) \<longleftrightarrow>
      \<not> (isl (z_string [''amount''] (map_of props ''amount'')) \<or>
         isl (z_string [''cardNumber''] (map_of props ''cardNumber'')) \<or>
         isl (z_string [''expiryDate''] (map_of props ''expiryDate'')) \<or>
         isl (z_string [''cvv''] (map_of props ''cvv'')) \<or>
         isl (z_string [''accountId''] (map_of props ''accountId'')) \<or>
         isl (z_enum [''accountType''] (map_of props ''accountType'')))"
    by (simp add: parse_object Let_def)
  also have "\<dots> \<longleftrightarrow> (\<exists>a c e v i t.
      map_of props ''amount'' = Some (JString a) \<and>
      map_of props ''cardNumber'' = Some (JString c) \<and>
      map_of props ''expiryDate'' = Some (JString e) \<and>
      map_of props ''cvv'' = Some (JString v) \<and>
      map_of props ''accountId'' = Some (JString i) \<and>
      map_of props ''accountType'' = Some (JString t) \<and>
      (t = ''ELECTRICITY'' \<or> t = ''GAS''))"
    unfolding isl_z_string isl_z_enum by blast
  finally show ?thesis using JObject by simp
qed (simp_all add: paymentRequestSchema_parse_def)

subsection \<open>The handler\<close>

lemma POST_parsed:
  "fst (POST (Inr body)) =
     (case paymentRequestSchema_parse body of
        Inl issues \<Rightarrow> \<lparr>status = 400, success = False, resp_message = ''Invalid payment data'',
                       errors = Some issues\<rparr>
      | Inr validatedData \<Rightarrow> \<lparr>status = 200, success = True,
                       resp_message = ''Payment processed successfully'', errors = None\<rparr>)"
  by (simp add: POST_def POST_try_def POST_catch_def Let_def split: sum.split)

lemma POST_unreadable:
  "fst (POST (Inl err)) =
     \<lparr>status = 500, success = False, resp_message = ''Payment processing failed'',
      errors = None\<rparr>"
  by (simp add: POST_def POST_try_def POST_catch_def Let_def)

lemma POST_well_typed:
  assumes "map_of props ''amount'' = Some (JString a)"
    and "map_of props ''cardNumber'' = Some (JString c)"
    and "map_of props ''expiryDate'' = Some (JString e)"
    and "map_of props ''cvv'' = Some (JString v)"
    and "map_of props ''accountId'' = Some (JString i)"
    and "map_of props ''accountType'' = Some (JString t)"
    and "t = ''ELECTRICITY'' \<or> t = ''GAS''"
  shows "fst (POST (Inr (JObject props))) =
           \<lparr>status = 200, success = True,
            resp_message = ''Payment processed successfully'', errors = None\<rparr>"
  by (simp add: POST_parsed parse_well_typed [OF assms])

lemma POST_status_200:
  "status (fst (POST req)) = 200 \<longleftrightarrow>
     (\<exists>body r. req = Inr body \<and> paymentRequestSchema_parse body = Inr r)"
proof (cases req)
  case (Inl err)
  then show ?thesis by (simp add: POST_unreadable)
next
  case (Inr body)
  then show ?thesis by (simp add: POST_parsed split: sum.split)
qed

lemma POST_status_400:
  "status (fst (POST req)) = 400 \<longleftrightarrow>
     (\<exists>body issues. req = Inr body \<and> paymentRequestSchema_parse body = Inl issues)"
proof (cases req)
  case (Inl err)
  then show ?thesis by (simp add: POST_unreadable)
next
  case (Inr body)
  then show ?thesis by (simp add: POST_parsed split: sum.split)
qed

lemma POST_errors_400:
  "errors (fst (POST req)) \<noteq> None \<longleftrightarrow> status (fst (POST req)) = 400"
proof (cases req)
  case (Inl err)
  then show ?thesis by (simp add: POST_unreadable)
next
  case (Inr body)
  then show ?thesis by (simp add: POST_parsed split: sum.split)
qed

lemma error_paths_object:
  "error_paths (fst (POST (Inr (JObject props)))) =
     map path (issues_of (z_string [''amount''] (map_of props ''amount''))) @
     map path (issues_of (z_string [''cardNumber''] (map_of props ''cardNumber''))) @
     map path (issues_of (z_string [''expiryDate''] (map_of props ''expiryDate''))) @
     map path (issues_of (z_string [''cvv''] (map_of props ''cvv''))) @
     map path (issues_of (z_string [''accountId''] (map_of props ''accountId''))) @
     map path (issues_of (z_enum [''accountType''] (map_of props ''accountType'')))"
  by (simp add: POST_parsed parse_object Let_def error_paths_def issues_of_not_isl)

lemma amount_error_iff:
  "[''amount''] \<in> set (error_paths (fst (POST (Inr (JObject props))))) \<longleftrightarrow>
   \<not> (\<exists>s. map_of props ''amount'' = Some (JString s))"
  unfolding error_paths_object z_string_issue_paths z_enum_issue_paths by simp

lemma error_path_status:
  "p \<in> set (error_paths (fst (POST req))) \<Longrightarrow> status (fst (POST req)) = 400"
proof -
  assume "p \<in> set (error_paths (fst (POST req)))"
  then have "errors (fst (POST req)) \<noteq> None"
    by (cases "errors (fst (POST req))") (simp_all add: error_paths_def)
  then show ?thesis using POST_errors_400 [of req] by blast
qed

text \<open>
  Claim C1, as amended. The endpoint checks each field of the body for presence and type
  only, not against the content rules of the data model: for every body whose amount is
  \<open>-5\<close> and whose other fields are well typed it answers 200 with \<open>success: true\<close> and no
  \<open>errors\<close> array; and an object body is answered with status 400 and an entry for the
  amount field exactly when its amount is absent or not a string.
\<close>

theorem POST_checks_types_only:
  assumes "map_of props ''amount'' = Some (JString ''-5'')"
    and "map_of props ''cardNumber'' = Some (JString c)"
    and "map_of props ''expiryDate'' = Some (JString e)"
    and "map_of props ''cvv'' = Some (JString v)"
    and "map_of props ''accountId'' = Some (JString i)"
    and "map_of props ''accountType'' = Some (JString t)"
    and "t = ''ELECTRICITY'' \<or> t = ''GAS''"
  shows "fst (POST (Inr (JObject props))) =
           \<lparr>status = 200, success = True,
            resp_message = ''Payment processed successfully'', errors = None\<rparr> \<and>
         (status (fst (POST (Inr (JObject other)))) = 400 \<and>
          [''amount''] \<in> set (error_paths (fst (POST (Inr (JObject other)))))
          \<longleftrightarrow> \<not> (\<exists>s. map_of other ''amount'' = Some (JString s)))"
  using POST_well_typed [OF assms] amount_error_iff [of other]
    error_path_status [of "[''amount'']" "Inr (JObject other)"]
  by blast

theorem POST_checks_types_only_witness:
  "fst (POST (Inr minus_5_body)) =
           \<lparr>status = 200, success = True,
            resp_message = ''Payment processed successfully'', errors = None\<rparr> \<and>
   status (fst (POST (Inr (JObject [(''amount'', JNumber (- 5))])))) = 400 \<and>
   [''amount''] \<in> set (error_paths (fst (POST (Inr (JObject [(''amount'', JNumber (- 5))])))))"
  unfolding minus_5_body_def
  using POST_checks_types_only [of
      "[(''amount'', JString ''-5''), (''cardNumber'', JString ''4242424242424242''),
      (''expiryDate'', JString ''12/99''), (''cvv'', JString ''123''),
      (''accountId'', JString ''A-0001''), (''accountType'', JString ''ELECTRICITY'')]"
      "''4242424242424242''" "''12/99''" "''123''" "''A-0001''" "''ELECTRICITY''"
      "[(''amount'', JNumber (- 5))]"]
  by simp

text \<open>
  The claim C1 asks for status 400 and an amount entry at the amount \<open>-5\<close>. The body below
  has that amount and well-typed other fields, and the endpoint answers 200 without any
  \<open>errors\<close> array.
\<close>

theorem POST_minus_5_counterexample:
  "status (fst (POST (Inr minus_5_body))) = 200 \<and>
   success (fst (POST (Inr minus_5_body))) \<and>
   errors (fst (POST (Inr minus_5_body))) = None"
  by (simp add: minus_5_body_def POST_parsed parse_object Let_def)

text \<open>
  Claim C2. For every body in which amount, cardNumber, expiryDate, cvv and accountId are
  strings of any content and accountType is \<open>ELECTRICITY\<close> or \<open>GAS\<close>, the endpoint
  answers 200 with \<open>success: true\<close>: the schema returns the strings as they came. The schema
  checks presence and type and nothing else: a request is answered with 200 exactly when
  its body is an object with these six fields so typed.
\<close>

theorem POST_accepts_any_strings:
  assumes "map_of props ''amount'' = Some (JString a)"
    and "map_of props ''cardNumber'' = Some (JString c)"
    and "map_of props ''expiryDate'' = Some (JString e)"
    and "map_of props ''cvv'' = Some (JString v)"
    and "map_of props ''accountId'' = Some (JString i)"
    and "map_of props ''accountType'' = Some (JString t)"
    and "t = ''ELECTRICITY'' \<or> t = ''GAS''"
  shows "fst (POST (Inr (JObject props))) =
           \<lparr>status = 200, success = True,
            resp_message = ''Payment processed successfully'', errors = None\<rparr> \<and>
         paymentRequestSchema_parse (JObject props) =
           Inr \<lparr>amount = a, cardNumber = c, expiryDate = e, cvv = v, accountId = i,
                accountType = (if t = ''ELECTRICITY'' then ELECTRICITY else GAS)\<rparr> \<and>
         (status (fst (POST req)) = 200 \<longleftrightarrow>
            (\<exists>ps a' c' e' v' i' t'. req = Inr (JObject ps) \<and>
               map_of ps ''amount'' = Some (JString a') \<and>
               map_of ps ''cardNumber'' = Some (JString c') \<and>
               map_of ps ''expiryDate'' = Some (JString e') \<and>
               map_of ps ''cvv'' = Some (JString v') \<and>
               map_of ps ''accountId'' = Some (JString i') \<and>
               map_of ps ''accountType'' = Some (JString t') \<and>
               (t' = ''ELECTRICITY'' \<or> t' = ''GAS'')))"
proof -
  have "status (fst (POST req)) = 200 \<longleftrightarrow>
      (\<exists>body. req = Inr body \<and> (\<exists>r. paymentRequestSchema_parse body = Inr r))"
    by (auto simp: POST_status_200)
  also have "\<dots> \<longleftrightarrow> (\<exists>ps a' c' e' v' i' t'. req = Inr (JObject ps) \<and>
               map_of ps ''amount'' = Some (JString a') \<and>
               map_of ps ''cardNumber'' = Some (JString c') \<and>
               map_of ps ''expiryDate'' = Some (JString e') \<and>
               map_of ps ''cvv'' = Some (JString v') \<and>
               map_of ps ''accountId'' = Some (JString i') \<and>
               map_of ps ''accountType'' = Some (JString t') \<and>
               (t' = ''ELECTRICITY'' \<or> t' = ''GAS''))"
    unfolding parse_Inr_object by blast
  finally show ?thesis
    using POST_well_typed [OF assms] parse_well_typed [OF assms] by simp
qed

theorem POST_accepts_any_strings_witness:
  "fst (POST (Inr (JObject
      [(''amount'', JString ''-5''), (''cardNumber'', JString ''not a card''),
       (''expiryDate'', JString ''13/01''), (''cvv'', JString []),
       (''accountId'', JString ''nobody''), (''accountType'', JString ''GAS'')]))) =
     \<lparr>status = 200, success = True,
      resp_message = ''Payment processed successfully'', errors = None\<rparr>"
  using POST_accepts_any_strings [of
      "[(''amount'', JString ''-5''), (''cardNumber'', JString ''not a card''),
       (''expiryDate'', JString ''13/01''), (''cvv'', JString []),
       (''accountId'', JString ''nobody''), (''accountType'', JString ''GAS'')]"
      "''-5''" "''not a card''" "''13/01''" "[]" "''nobody''" "''GAS''"]
  by simp

text \<open>
  Claim C3. For every body with the amount \<open>50.00\<close>, a Luhn-valid card number, an expiry
  date in the form MM/YY that the expiry rule accepts at the current date, a CVV of three
  or four digits, a string accountId and the accountType \<open>ELECTRICITY\<close> or \<open>GAS\<close>, the
  endpoint answers 200 with \<open>success: true\<close> and a message.
\<close>

theorem POST_valid_payment:
  assumes "map_of props ''amount'' = Some (JString ''50.00'')"
    and "map_of props ''cardNumber'' = Some (JString c)" and "luhn_valid c"
    and "map_of props ''expiryDate'' = Some (JString e)" and "expiryDate_valid now e"
    and "map_of props ''cvv'' = Some (JString v)" and "cvv_valid v"
    and "map_of props ''accountId'' = Some (JString i)"
    and "map_of props ''accountType'' = Some (JString t)"
    and "t = ''ELECTRICITY'' \<or> t = ''GAS''"
  shows "status (fst (POST (Inr (JObject props)))) = 200 \<and>
         success (fst (POST (Inr (JObject props)))) \<and>
         resp_message (fst (POST (Inr (JObject props)))) = ''Payment processed successfully'' \<and>
         errors (fst (POST (Inr (JObject props)))) = None"
  using POST_well_typed [OF assms(1,2,4,6,8,9,10)] by simp

theorem POST_valid_payment_witness:
  "luhn_valid ''4242424242424242'' \<and>
   expiryDate_valid \<lparr>lt_year = 2026, lt_month = 10, lt_ms = 86400000\<rparr> ''12/99'' \<and>
   cvv_valid ''123'' \<and>
   status (fst (POST (Inr (JObject valid_payment_props)))) = 200 \<and>
   success (fst (POST (Inr (JObject valid_payment_props)))) \<and>
   resp_message (fst (POST (Inr (JObject valid_payment_props)))) =
     ''Payment processed successfully'' \<and>
   errors (fst (POST (Inr (JObject valid_payment_props)))) = None"
proof -
  have l: "luhn_valid ''4242424242424242''"
    by (simp add: luhn_valid_def is_digit_def digit_val_def)
  have e: "expiryDate_valid \<lparr>lt_year = 2026, lt_month = 10, lt_ms = 86400000\<rparr> ''12/99''"
    using expiryDate_valid_mmyy [of "CHR ''1''" "CHR ''2''" "CHR ''9''" "CHR ''9''"
        "\<lparr>lt_year = 2026, lt_month = 10, lt_ms = 86400000\<rparr>"]
    by (simp add: is_digit_def decimal_value_def digit_val_def Date_ym_def date_gt_def)
  have c: "cvv_valid ''123''"
    by (simp add: cvv_valid_def regex_cvv_def is_digit_def)
  have p: "map_of valid_payment_props ''amount'' = Some (JString ''50.00'')"
    "map_of valid_payment_props ''cardNumber'' = Some (JString ''4242424242424242'')"
    "map_of valid_payment_props ''expiryDate'' = Some (JString ''12/99'')"
    "map_of valid_payment_props ''cvv'' = Some (JString ''123'')"
    "map_of valid_payment_props ''accountId'' = Some (JString ''A-0001'')"
    "map_of valid_payment_props ''accountType'' = Some (JString ''ELECTRICITY'')"
    by (simp_all add: valid_payment_props_def)
  have t: "''ELECTRICITY'' = ''ELECTRICITY'' \<or> ''ELECTRICITY'' = ''GAS''" by simp
  from POST_valid_payment [OF p(1) p(2) l p(3) e p(4) c p(5) p(6) t] l e c
  show ?thesis by simp
qed

text \<open>
  Claim C4. When the body cannot be read as JSON, so that reading it throws an error that
  is not a schema error, the endpoint answers 500 with \<open>success: false\<close>, the generic
  message and no \<open>errors\<close> array. Status 400 is answered exactly when the body was read
  and the schema refused it, and an \<open>errors\<close> array is present exactly in the 400 answers.
\<close>

theorem POST_malformed_body:
  "fst (POST (Inl err)) =
     \<lparr>status = 500, success = False, resp_message = ''Payment processing failed'',
      errors = None\<rparr> \<and>
   (status (fst (POST req)) = 400 \<longleftrightarrow>
      (\<exists>body issues. req = Inr body \<and> paymentRequestSchema_parse body = Inl issues)) \<and>
   (errors (fst (POST req)) \<noteq> None \<longleftrightarrow> status (fst (POST req)) = 400)"
  using POST_unreadable [of err] POST_status_400 [of req] POST_errors_400 [of req] by blast

theorem POST_malformed_body_witness:
  "fst (POST (Inl SyntaxError)) =
     \<lparr>status = 500, success = False, resp_message = ''Payment processing failed'',
      errors = None\<rparr> \<and>
   status (fst (POST (Inr JNull))) = 400 \<and>
   errors (fst (POST (Inr JNull))) \<noteq> None"
proof -
  have "paymentRequestSchema_parse JNull = Inl [invalid_type_issue [] ''object'' (Some JNull)]"
    by (simp add: paymentRequestSchema_parse_def)
  with POST_malformed_body [of SyntaxError "Inr JNull"] show ?thesis by simp
qed

end
